theory Spec2Isabelle
  imports Main
begin

section \<open>Realtime notifications of ConversationMessagesClient\<close>

text \<open>
  The theory embeds the class \<^verbatim>\<open>ConversationMessagesClient\<close> of
  \<^verbatim>\<open>communication-messages-rest/src/conversationMessagesClient.ts\<close>: its three mutable
  parts (the signaling client, the event emitter and the flag
  \<^verbatim>\<open>isRealtimeNotificationsStarted\<close>) and its operations
  \<^verbatim>\<open>startRealtimeNotifications\<close>, \<^verbatim>\<open>stopRealtimeNotifications\<close>, \<^verbatim>\<open>on\<close>, \<^verbatim>\<open>off\<close> and
  \<^verbatim>\<open>subscribeToSignalingEvents\<close>. A method is a function from the session to what the call
  completed with and the session it leaves. The fields \<^verbatim>\<open>endpoint\<close>, \<^verbatim>\<open>tokenCredential\<close> and
  \<^verbatim>\<open>clientOptions\<close> are only handed to the factory of the signaling client and are left out.
\<close>

subsection \<open>Event names, payloads, errors\<close>

text \<open>\<^verbatim>\<open>ChatEventId\<close>: the six names the overloads of \<^verbatim>\<open>on\<close> accept.\<close>

datatype chat_event_id =
    chatMessageReceived
  | chatThreadPropertiesUpdated
  | participantsAdded
  | participantsRemoved
  | realTimeNotificationConnected
  | realTimeNotificationDisconnected

text \<open>
  The five names under which \<^verbatim>\<open>subscribeToSignalingEvents\<close> registers handlers on the
  signaling client. Four of them are spelt like a \<^verbatim>\<open>ChatEventId\<close> in the source; they carry
  the prefix \<open>signaling_\<close> here.
\<close>

datatype signaling_event =
    connectionChanged
  | signaling_chatMessageReceived
  | signaling_chatThreadPropertiesUpdated
  | signaling_participantsAdded
  | signaling_participantsRemoved

text \<open>
  Modelled from the spec: the enum \<^verbatim>\<open>ConnectionState\<close> is declared in the package
  \<^verbatim>\<open>@azure/communication-signaling\<close>, not in this repository. The source names its values
  \<^verbatim>\<open>Connected\<close> and \<^verbatim>\<open>Disconnected\<close>; every other value the transport may report is an
  \<open>OtherState\<close>.
\<close>

datatype connection_state = Connected | Disconnected | OtherState nat

text \<open>
  What the signaling client hands to a handler: a connection state or an event record of
  type \<open>'p\<close>. A handler is a JavaScript closure and is called with whatever the transport
  passes, so one type covers both.
\<close>

datatype 'p payload = ConnectionStatePayload connection_state | EventPayload 'p

text \<open>\<^verbatim>\<open>new Error(message)\<close>; a rejection of the transport and a value thrown by a listener
  are errors too.\<close>

datatype error = Error string

text \<open>How a call ends: it returns (an awaited promise resolves) or it throws (the promise
  rejects).\<close>

datatype completion = Returned | Threw error

text \<open>A listener is a function reference; \<^verbatim>\<open>===\<close> on references is equality of the number.\<close>

type_synonym listener = nat

definition not_supported_in_node :: error where
  "not_supported_in_node = Error ''Realtime notifications are not supported in node js.''"

definition only_supported_in_browser :: error where
  "only_supported_in_browser = Error ''Realtime notifications are only supported in the browser.''"

definition must_start_first :: error where
  "must_start_first =
     Error ''You must call startRealtimeNotifications before you can subscribe to events.''"

text \<open>
  The specification's taxonomy of the three messages: a \<open>CapabilityError\<close> reports the
  missing signaling client, a \<open>PreconditionError\<close> a subscription before the start.
\<close>

definition is_CapabilityError :: "error \<Rightarrow> bool" where
  "is_CapabilityError e = (e = not_supported_in_node \<or> e = only_supported_in_browser)"

definition is_PreconditionError :: "error \<Rightarrow> bool" where
  "is_PreconditionError e = (e = must_start_first)"

fun is_domain_event :: "chat_event_id \<Rightarrow> bool" where
  "is_domain_event chatMessageReceived = True"
| "is_domain_event chatThreadPropertiesUpdated = True"
| "is_domain_event participantsAdded = True"
| "is_domain_event participantsRemoved = True"
| "is_domain_event realTimeNotificationConnected = False"
| "is_domain_event realTimeNotificationDisconnected = False"

subsection \<open>The event emitter\<close>

text \<open>
  \<^verbatim>\<open>EventEmitter\<close> is imported from the module \<^verbatim>\<open>events\<close> of Node.js (line 17); its code is
  not part of the repository. The four methods the client calls are written from the
  documented behaviour of that module:
  \<^item> \<^verbatim>\<open>on(name, listener)\<close> adds the listener to the end of the array of \<^verbatim>\<open>name\<close>, without
    checking whether it is there already;
  \<^item> \<^verbatim>\<open>removeListener(name, listener)\<close> removes at most one instance, the most recently added
    one (the array is searched from its end), and does nothing when there is none;
  \<^item> \<^verbatim>\<open>removeAllListeners()\<close> without an argument empties every array;
  \<^item> \<^verbatim>\<open>emit(name, ...args)\<close> calls the listeners of \<^verbatim>\<open>name\<close> synchronously, in the order they
    were registered, on a copy of the array; it has no \<^verbatim>\<open>try\<close>, so what a listener throws
    leaves \<^verbatim>\<open>emit\<close> at once and the listeners after it are not called.
  None of the six names is \<^verbatim>\<open>error\<close>, \<^verbatim>\<open>newListener\<close> or \<^verbatim>\<open>removeListener\<close>, the names the module
  treats specially. The boolean \<^verbatim>\<open>emit\<close> returns is dropped by every caller and left out.
\<close>

type_synonym event_bus = "chat_event_id \<Rightarrow> listener list"

definition remove_last :: "'a \<Rightarrow> 'a list \<Rightarrow> 'a list" where
  "remove_last x xs = rev (remove1 x (rev xs))"

definition emitter_on :: "event_bus \<Rightarrow> chat_event_id \<Rightarrow> listener \<Rightarrow> event_bus" where
  "emitter_on b k l = b(k := b k @ [l])"

definition emitter_removeListener :: "event_bus \<Rightarrow> chat_event_id \<Rightarrow> listener \<Rightarrow> event_bus" where
  "emitter_removeListener b k l = b(k := remove_last l (b k))"

definition emitter_removeAllListeners :: "event_bus \<Rightarrow> event_bus" where
  "emitter_removeAllListeners b = (\<lambda>k. [])"

text \<open>
  \<open>beh l a\<close> is what the listener \<open>l\<close> does when called with the argument \<open>a\<close>: it returns or
  it throws. \<open>call_listeners\<close> is the loop of \<^verbatim>\<open>emit\<close>; it yields the calls made, in order,
  and how the loop ended.
\<close>

fun call_listeners ::
  "(listener \<Rightarrow> 'a \<Rightarrow> completion) \<Rightarrow> listener list \<Rightarrow> 'a \<Rightarrow> (listener \<times> 'a) list \<times> completion"
where
  "call_listeners beh [] a = ([], Returned)"
| "call_listeners beh (l # ls) a =
     (case beh l a of
        Threw e \<Rightarrow> ([(l, a)], Threw e)
      | Returned \<Rightarrow> (case call_listeners beh ls a of (cs, c) \<Rightarrow> ((l, a) # cs, c)))"

definition emitter_emit ::
  "(listener \<Rightarrow> 'a \<Rightarrow> completion) \<Rightarrow> event_bus \<Rightarrow> chat_event_id \<Rightarrow> 'a
     \<Rightarrow> (listener \<times> 'a) list \<times> completion"
where
  "emitter_emit beh b k a = call_listeners beh (b k) a"

subsection \<open>The signaling client\<close>

text \<open>
  The handlers \<^verbatim>\<open>subscribeToSignalingEvents\<close> registers are five closures: one translates a
  connection state, four forward their payload under a fixed name.
\<close>

datatype bridge = ConnectionBridge | Forward chat_event_id

text \<open>
  Modelled from the spec: \<^verbatim>\<open>SignalingClient\<close> is declared in the package
  \<^verbatim>\<open>@azure/communication-signaling\<close>, not in this repository. The client uses its \<^verbatim>\<open>start\<close>,
  \<^verbatim>\<open>stop\<close> and \<^verbatim>\<open>on\<close>. The record is a transport that counts the calls of \<^verbatim>\<open>start\<close> and
  \<^verbatim>\<open>stop\<close> and keeps the handlers in registration order; whether \<^verbatim>\<open>stop\<close> releases the
  handlers is the transport's affair and is the field \<open>releasesOnStop\<close>. Whether
  \<^verbatim>\<open>start\<close> or \<^verbatim>\<open>stop\<close> resolves or rejects is an argument of the operation that awaits it.
\<close>

record signaling_client =
  startCalls :: nat
  stopCalls :: nat
  handlers :: "(signaling_event \<times> bridge) list"
  releasesOnStop :: bool

definition signaling_start :: "signaling_client \<Rightarrow> signaling_client" where
  "signaling_start t = t\<lparr>startCalls := Suc (startCalls t)\<rparr>"

definition signaling_stop :: "signaling_client \<Rightarrow> signaling_client" where
  "signaling_stop t =
     t\<lparr>stopCalls := Suc (stopCalls t),
       handlers := (if releasesOnStop t then [] else handlers t)\<rparr>"

definition signaling_on :: "signaling_client \<Rightarrow> signaling_event \<Rightarrow> bridge \<Rightarrow> signaling_client" where
  "signaling_on t ev h = t\<lparr>handlers := handlers t @ [(ev, h)]\<rparr>"

subsection \<open>The client\<close>

record session =
  signalingClient :: "signaling_client option"
  emitter :: event_bus
  isRealtimeNotificationsStarted :: bool

text \<open>The constructor; its argument is what \<^verbatim>\<open>getSignalingClient\<close> returned
  (\<^verbatim>\<open>undefined\<close> is \<open>None\<close>).\<close>

definition ConversationMessagesClient :: "signaling_client option \<Rightarrow> session" where
  "ConversationMessagesClient made =
     \<lparr>signalingClient = made, emitter = (\<lambda>k. []), isRealtimeNotificationsStarted = False\<rparr>"

text \<open>Lines 191 to 219: the five registrations, in the order of the source.\<close>

definition subscribeToSignalingEvents :: "session \<Rightarrow> completion \<times> session" where
  "subscribeToSignalingEvents s =
     (case signalingClient s of
        None \<Rightarrow> (Threw only_supported_in_browser, s)
      | Some t0 \<Rightarrow>
          (let t1 = signaling_on t0 connectionChanged ConnectionBridge;
               t2 = signaling_on t1 signaling_chatMessageReceived (Forward chatMessageReceived);
               t3 = signaling_on t2 signaling_chatThreadPropertiesUpdated
                      (Forward chatThreadPropertiesUpdated);
               t4 = signaling_on t3 signaling_participantsAdded (Forward participantsAdded);
               t5 = signaling_on t4 signaling_participantsRemoved (Forward participantsRemoved)
           in (Returned, s\<lparr>signalingClient := Some t5\<rparr>)))"

text \<open>
  An \<^verbatim>\<open>async\<close> method runs synchronously up to its \<^verbatim>\<open>await\<close>. \<open>start_begin\<close> is lines 61 to
  70 up to the point where the promise of \<^verbatim>\<open>signalingClient.start()\<close> is awaited: the method
  is \<open>Done\<close> (it threw or returned) or it is \<open>Awaiting\<close>. \<open>start_resume\<close> is the rest, run
  with what the promise settled to. \<open>startRealtimeNotifications\<close> is a call nothing else
  interleaves with.
\<close>

datatype progress = Done completion | Awaiting

definition start_begin :: "session \<Rightarrow> progress \<times> session" where
  "start_begin s =
     (case signalingClient s of
        None \<Rightarrow> (Done (Threw not_supported_in_node), s)
      | Some t \<Rightarrow>
          if isRealtimeNotificationsStarted s then (Done Returned, s)
          else (let s1 = s\<lparr>isRealtimeNotificationsStarted := True\<rparr>
                in (Awaiting, s1\<lparr>signalingClient := Some (signaling_start t)\<rparr>)))"

definition start_resume :: "session \<Rightarrow> completion \<Rightarrow> completion \<times> session" where
  "start_resume s settled =
     (case settled of
        Threw e \<Rightarrow> (Threw e, s)
      | Returned \<Rightarrow> subscribeToSignalingEvents s)"

definition startRealtimeNotifications :: "session \<Rightarrow> completion \<Rightarrow> completion \<times> session" where
  "startRealtimeNotifications s settled =
     (case start_begin s of
        (Done c, s') \<Rightarrow> (c, s')
      | (Awaiting, s') \<Rightarrow> start_resume s' settled)"

text \<open>Lines 78 to 86, split at the \<^verbatim>\<open>await\<close> in the same way.\<close>

definition stop_begin :: "session \<Rightarrow> progress \<times> session" where
  "stop_begin s =
     (case signalingClient s of
        None \<Rightarrow> (Done (Threw not_supported_in_node), s)
      | Some t \<Rightarrow>
          (let s1 = s\<lparr>isRealtimeNotificationsStarted := False\<rparr>
           in (Awaiting, s1\<lparr>signalingClient := Some (signaling_stop t)\<rparr>)))"

definition stop_resume :: "session \<Rightarrow> completion \<Rightarrow> completion \<times> session" where
  "stop_resume s settled =
     (case settled of
        Threw e \<Rightarrow> (Threw e, s)
      | Returned \<Rightarrow> (Returned, s\<lparr>emitter := emitter_removeAllListeners (emitter s)\<rparr>))"

definition stopRealtimeNotifications :: "session \<Rightarrow> completion \<Rightarrow> completion \<times> session" where
  "stopRealtimeNotifications s settled =
     (case stop_begin s of
        (Done c, s') \<Rightarrow> (c, s')
      | (Awaiting, s') \<Rightarrow> stop_resume s' settled)"

text \<open>Lines 135 to 150. The method is called \<open>on_event\<close>: \<open>on\<close> is taken in HOL.\<close>

definition on_event :: "session \<Rightarrow> chat_event_id \<Rightarrow> listener \<Rightarrow> completion \<times> session" where
  "on_event s event l =
     (case signalingClient s of
        None \<Rightarrow> (Threw only_supported_in_browser, s)
      | Some t \<Rightarrow>
          if \<not> isRealtimeNotificationsStarted s
             \<and> event \<noteq> realTimeNotificationConnected
             \<and> event \<noteq> realTimeNotificationDisconnected
          then (Threw must_start_first, s)
          else (Returned, s\<lparr>emitter := emitter_on (emitter s) event l\<rparr>))"

text \<open>Lines 183 to 189.\<close>

definition off_event :: "session \<Rightarrow> chat_event_id \<Rightarrow> listener \<Rightarrow> completion \<times> session" where
  "off_event s event l =
     (case signalingClient s of
        None \<Rightarrow> (Threw only_supported_in_browser, s)
      | Some t \<Rightarrow> (Returned, s\<lparr>emitter := emitter_removeListener (emitter s) event l\<rparr>))"

subsection \<open>Events of the transport\<close>

text \<open>
  The body of a handler makes at most one call of \<^verbatim>\<open>emit\<close>: lines 196 to 202 for the
  connection state (\<^verbatim>\<open>emit\<close> without an argument), lines 204 to 218 for the four others.
\<close>

fun bridge_emission :: "bridge \<Rightarrow> 'p payload \<Rightarrow> (chat_event_id \<times> 'p payload option) option" where
  "bridge_emission ConnectionBridge pl =
     (if pl = ConnectionStatePayload Connected then Some (realTimeNotificationConnected, None)
      else if pl = ConnectionStatePayload Disconnected
           then Some (realTimeNotificationDisconnected, None)
      else None)"
| "bridge_emission (Forward k) pl = Some (k, Some pl)"

text \<open>
  Running handlers: the calls of \<^verbatim>\<open>emit\<close> made, the calls of listeners made, and how the
  run ended. A handler reads \<^verbatim>\<open>this.emitter\<close> when it runs, so it sees the listeners of the
  session at that moment.
\<close>

type_synonym 'p delivery =
  "(chat_event_id \<times> 'p payload option) list \<times> (listener \<times> 'p payload option) list \<times> completion"

definition run_bridge ::
  "(listener \<Rightarrow> 'p payload option \<Rightarrow> completion) \<Rightarrow> session \<Rightarrow> bridge \<Rightarrow> 'p payload \<Rightarrow> 'p delivery"
where
  "run_bridge beh s h pl =
     (case bridge_emission h pl of
        None \<Rightarrow> ([], [], Returned)
      | Some (k, a) \<Rightarrow>
          (case emitter_emit beh (emitter s) k a of (cs, c) \<Rightarrow> ([(k, a)], cs, c)))"

text \<open>
  The transport raises the event \<open>ev\<close> with the payload \<open>pl\<close>: it calls the handlers
  registered under \<open>ev\<close> in registration order. A handler that throws ends the run (the
  transport is an emitter of the same kind).
\<close>

fun run_bridges ::
  "(listener \<Rightarrow> 'p payload option \<Rightarrow> completion) \<Rightarrow> session \<Rightarrow> bridge list \<Rightarrow> 'p payload \<Rightarrow> 'p delivery"
where
  "run_bridges beh s [] pl = ([], [], Returned)"
| "run_bridges beh s (h # hs) pl =
     (case run_bridge beh s h pl of
        (es, cs, Threw e) \<Rightarrow> (es, cs, Threw e)
      | (es, cs, Returned) \<Rightarrow>
          (case run_bridges beh s hs pl of (es', cs', c) \<Rightarrow> (es @ es', cs @ cs', c)))"

definition handlers_of :: "signaling_client \<Rightarrow> signaling_event \<Rightarrow> bridge list" where
  "handlers_of t ev = map snd (filter (\<lambda>eh. fst eh = ev) (handlers t))"

definition signaling_raise ::
  "(listener \<Rightarrow> 'p payload option \<Rightarrow> completion) \<Rightarrow> session \<Rightarrow> signaling_event \<Rightarrow> 'p payload
     \<Rightarrow> 'p delivery"
where
  "signaling_raise beh s ev pl =
     (case signalingClient s of
        None \<Rightarrow> ([], [], Returned)
      | Some t \<Rightarrow> run_bridges beh s (handlers_of t ev) pl)"

subsection \<open>Sequences of calls\<close>

text \<open>
  A caller makes one call after the other, each completed before the next begins; a call
  that throws leaves the session as the method left it and the caller goes on.
\<close>

datatype call =
    CallStart completion
  | CallStop completion
  | CallOn chat_event_id listener
  | CallOff chat_event_id listener

fun exec :: "session \<Rightarrow> call \<Rightarrow> completion \<times> session" where
  "exec s (CallStart settled) = startRealtimeNotifications s settled"
| "exec s (CallStop settled) = stopRealtimeNotifications s settled"
| "exec s (CallOn k l) = on_event s k l"
| "exec s (CallOff k l) = off_event s k l"

fun run :: "session \<Rightarrow> call list \<Rightarrow> session" where
  "run s [] = s"
| "run s (c # cs) = run (snd (exec s c)) cs"

fun is_subscription :: "call \<Rightarrow> bool" where
  "is_subscription (CallOn k l) = True"
| "is_subscription (CallOff k l) = True"
| "is_subscription (CallStart settled) = False"
| "is_subscription (CallStop settled) = False"

fun is_stop :: "call \<Rightarrow> bool" where
  "is_stop (CallStop settled) = True"
| "is_stop (CallStart settled) = False"
| "is_stop (CallOn k l) = False"
| "is_stop (CallOff k l) = False"

text \<open>
  The registrations under \<open>k\<close> after a sequence of calls of \<^verbatim>\<open>on\<close> and \<^verbatim>\<open>off\<close>, computed from
  the calls alone: a call of \<^verbatim>\<open>on\<close> appends, a call of \<^verbatim>\<open>off\<close> takes the latest instance out.
\<close>

fun registered :: "chat_event_id \<Rightarrow> listener list \<Rightarrow> call list \<Rightarrow> listener list" where
  "registered k ls [] = ls"
| "registered k ls (CallOn k' l # cs) = registered k (if k' = k then ls @ [l] else ls) cs"
| "registered k ls (CallOff k' l # cs) = registered k (if k' = k then remove_last l ls else ls) cs"
| "registered k ls (c # cs) = registered k ls cs"

text \<open>The five handlers of \<^verbatim>\<open>subscribeToSignalingEvents\<close>, as a list.\<close>

definition bridge_handlers :: "(signaling_event \<times> bridge) list" where
  "bridge_handlers =
     [(connectionChanged, ConnectionBridge),
      (signaling_chatMessageReceived, Forward chatMessageReceived),
      (signaling_chatThreadPropertiesUpdated, Forward chatThreadPropertiesUpdated),
      (signaling_participantsAdded, Forward participantsAdded),
      (signaling_participantsRemoved, Forward participantsRemoved)]"

text \<open>A signaling client on which nothing has been called yet, as the factory makes it.\<close>

definition new_signaling_client :: signaling_client where
  "new_signaling_client =
     \<lparr>startCalls = 0, stopCalls = 0, handlers = [], releasesOnStop = False\<rparr>"

text \<open>Two behaviours of listeners: every listener returns; the listener \<open>bad\<close> throws
  \<open>e\<close> and every other one returns.\<close>

definition all_return :: "listener \<Rightarrow> 'a \<Rightarrow> completion" where
  "all_return l a = Returned"

definition throws_at :: "listener \<Rightarrow> error \<Rightarrow> listener \<Rightarrow> 'a \<Rightarrow> completion" where
  "throws_at bad e l a = (if l = bad then Threw e else Returned)"

section \<open>Properties\<close>

subsection \<open>Single steps\<close>

lemma remove_last_absent: "x \<notin> set xs \<Longrightarrow> remove_last x xs = xs"
  by (simp add: remove_last_def remove1_idem)

lemma remove_last_split: "x \<notin> set ys \<Longrightarrow> remove_last x (xs @ x # ys) = xs @ ys"
  by (simp add: remove_last_def remove1_append)

lemma subscribe_present:
  "signalingClient s = Some t \<Longrightarrow>
   subscribeToSignalingEvents s =
     (Returned, s\<lparr>signalingClient := Some (t\<lparr>handlers := handlers t @ bridge_handlers\<rparr>)\<rparr>)"
  by (simp add: subscribeToSignalingEvents_def signaling_on_def bridge_handlers_def Let_def)

lemma start_begin_idle:
  "signalingClient s = Some t \<Longrightarrow> \<not> isRealtimeNotificationsStarted s \<Longrightarrow>
   start_begin s =
     (Awaiting, s\<lparr>isRealtimeNotificationsStarted := True, signalingClient := Some (signaling_start t)\<rparr>)"
  by (simp add: start_begin_def Let_def)

lemma start_active:
  "signalingClient s = Some t \<Longrightarrow> isRealtimeNotificationsStarted s \<Longrightarrow>
   startRealtimeNotifications s settled = (Returned, s)"
  by (simp add: startRealtimeNotifications_def start_begin_def)

lemma start_idle_resolved:
  "signalingClient s = Some t \<Longrightarrow> \<not> isRealtimeNotificationsStarted s \<Longrightarrow>
   startRealtimeNotifications s Returned =
     (Returned, s\<lparr>isRealtimeNotificationsStarted := True,
                  signalingClient := Some (t\<lparr>startCalls := Suc (startCalls t),
                                            handlers := handlers t @ bridge_handlers\<rparr>)\<rparr>)"
  by (simp add: startRealtimeNotifications_def start_begin_idle start_resume_def
      subscribe_present signaling_start_def)

lemma start_idle_rejected:
  "signalingClient s = Some t \<Longrightarrow> \<not> isRealtimeNotificationsStarted s \<Longrightarrow>
   startRealtimeNotifications s (Threw e) =
     (Threw e, s\<lparr>isRealtimeNotificationsStarted := True,
                  signalingClient := Some (t\<lparr>startCalls := Suc (startCalls t)\<rparr>)\<rparr>)"
  by (simp add: startRealtimeNotifications_def start_begin_idle start_resume_def
      signaling_start_def)

lemma stop_present:
  "signalingClient s = Some t \<Longrightarrow>
   stopRealtimeNotifications s Returned =
     (Returned, s\<lparr>isRealtimeNotificationsStarted := False,
                  signalingClient := Some (signaling_stop t),
                  emitter := (\<lambda>k. [])\<rparr>)"
  by (simp add: stopRealtimeNotifications_def stop_begin_def stop_resume_def Let_def
      emitter_removeAllListeners_def)

lemma on_present_active:
  "signalingClient s = Some t \<Longrightarrow> isRealtimeNotificationsStarted s \<Longrightarrow>
   on_event s k l = (Returned, s\<lparr>emitter := (emitter s)(k := emitter s k @ [l])\<rparr>)"
  by (simp add: on_event_def emitter_on_def)

lemma off_present:
  "signalingClient s = Some t \<Longrightarrow>
   off_event s k l = (Returned, s\<lparr>emitter := (emitter s)(k := remove_last l (emitter s k))\<rparr>)"
  by (simp add: off_event_def emitter_removeListener_def)

lemma exec_keeps_transport:
  "signalingClient s = Some t \<Longrightarrow> isRealtimeNotificationsStarted s \<Longrightarrow> \<not> is_stop c \<Longrightarrow>
   signalingClient (snd (exec s c)) = Some t \<and> isRealtimeNotificationsStarted (snd (exec s c))"
  by (cases c) (simp_all add: start_active on_present_active off_present)

lemma run_keeps_transport:
  "signalingClient s = Some t \<Longrightarrow> isRealtimeNotificationsStarted s \<Longrightarrow>
   \<forall>c\<in>set cs. \<not> is_stop c \<Longrightarrow>
   signalingClient (run s cs) = Some t \<and> isRealtimeNotificationsStarted (run s cs)"
proof (induction cs arbitrary: s)
  case Nil
  then show ?case by simp
next
  case (Cons c cs)
  from Cons.prems have "signalingClient (snd (exec s c)) = Some t"
    and "isRealtimeNotificationsStarted (snd (exec s c))"
    using exec_keeps_transport [of s t c] by simp_all
  with Cons show ?case by simp
qed

lemma handlers_of_bridges:
  "handlers_of (t\<lparr>startCalls := n, handlers := bridge_handlers\<rparr>) ev =
     (case ev of
        connectionChanged \<Rightarrow> [ConnectionBridge]
      | signaling_chatMessageReceived \<Rightarrow> [Forward chatMessageReceived]
      | signaling_chatThreadPropertiesUpdated \<Rightarrow> [Forward chatThreadPropertiesUpdated]
      | signaling_participantsAdded \<Rightarrow> [Forward participantsAdded]
      | signaling_participantsRemoved \<Rightarrow> [Forward participantsRemoved])"
  by (cases ev) (simp_all add: handlers_of_def bridge_handlers_def)

lemma call_listeners_all_return:
  "\<forall>l\<in>set ls. beh l a = Returned \<Longrightarrow>
   call_listeners beh ls a = (map (\<lambda>l. (l, a)) ls, Returned)"
  by (induction ls) simp_all

lemma call_listeners_first_throw:
  "\<forall>x\<in>set xs. beh x a = Returned \<Longrightarrow> beh l a = Threw e \<Longrightarrow>
   call_listeners beh (xs @ l # ys) a = (map (\<lambda>x. (x, a)) (xs @ [l]), Threw e)"
  by (induction xs) simp_all

lemma run_subscriptions:
  "signalingClient s = Some t \<Longrightarrow> isRealtimeNotificationsStarted s \<Longrightarrow>
   \<forall>c\<in>set cs. is_subscription c \<Longrightarrow>
   emitter (run s cs) k = registered k (emitter s k) cs"
proof (induction cs arbitrary: s)
  case Nil
  then show ?case by simp
next
  case (Cons c cs)
  show ?case
  proof (cases c)
    case (CallOn k' l)
    let ?s = "s\<lparr>emitter := (emitter s)(k' := emitter s k' @ [l])\<rparr>"
    have step: "snd (exec s c) = ?s"
      using Cons.prems CallOn by (simp add: on_present_active)
    have "emitter (run ?s cs) k = registered k (emitter ?s k) cs"
      using Cons.prems by (intro Cons.IH) simp_all
    then show ?thesis using step CallOn by simp
  next
    case (CallOff k' l)
    let ?s = "s\<lparr>emitter := (emitter s)(k' := remove_last l (emitter s k'))\<rparr>"
    have step: "snd (exec s c) = ?s"
      using Cons.prems CallOff by (simp add: off_present)
    have "emitter (run ?s cs) k = registered k (emitter ?s k) cs"
      using Cons.prems by (intro Cons.IH) simp_all
    then show ?thesis using step CallOff by simp
  next
    case (CallStart x)
    with Cons.prems show ?thesis by simp
  next
    case (CallStop x)
    with Cons.prems show ?thesis by simp
  qed
qed

subsection \<open>The guard of on\<close>

text \<open>
  C3. With a signaling client present: \<^verbatim>\<open>on\<close> with one of the four domain events while the
  flag is false throws the error "You must call startRealtimeNotifications ..." (the
  precondition error) and leaves the session as it was, so nothing is registered;
  \<^verbatim>\<open>on\<close> with one of the two lifecycle signals returns and appends the listener to the
  listeners of that signal, whatever the flag is.
\<close>

theorem on_guard:
  assumes "signalingClient s = Some t"
  shows "(is_domain_event k \<and> \<not> isRealtimeNotificationsStarted s \<longrightarrow>
            on_event s k l = (Threw must_start_first, s) \<and> is_PreconditionError must_start_first)
       \<and> (\<not> is_domain_event k \<longrightarrow>
            on_event s k l = (Returned, s\<lparr>emitter := (emitter s)(k := emitter s k @ [l])\<rparr>))"
  using assms by (cases k) (simp_all add: on_event_def emitter_on_def is_PreconditionError_def)

theorem on_guard_witness:
  "on_event (ConversationMessagesClient (Some new_signaling_client)) chatMessageReceived 7
     = (Threw must_start_first, ConversationMessagesClient (Some new_signaling_client))
   \<and> emitter (snd (on_event (ConversationMessagesClient (Some new_signaling_client))
        realTimeNotificationConnected 7)) realTimeNotificationConnected = [7]"
  using on_guard [of "ConversationMessagesClient (Some new_signaling_client)" new_signaling_client
      chatMessageReceived 7]
    on_guard [of "ConversationMessagesClient (Some new_signaling_client)" new_signaling_client
      realTimeNotificationConnected 7]
  by (simp add: ConversationMessagesClient_def)

subsection \<open>No signaling client\<close>

text \<open>
  C8. When the factory returned \<^verbatim>\<open>undefined\<close> the field \<^verbatim>\<open>signalingClient\<close> is absent, and
  then, whatever the flag and the listeners are, \<^verbatim>\<open>startRealtimeNotifications\<close>,
  \<^verbatim>\<open>stopRealtimeNotifications\<close>, \<^verbatim>\<open>on\<close> and \<^verbatim>\<open>off\<close> throw and leave the session exactly as
  it was. The two lifecycle methods throw "... not supported in node js.", the two
  subscription methods "... only supported in the browser."; both messages report the
  missing capability.
\<close>

theorem absent_transport:
  assumes "signalingClient s = None"
  shows "startRealtimeNotifications s settled = (Threw not_supported_in_node, s)
       \<and> stopRealtimeNotifications s settled = (Threw not_supported_in_node, s)
       \<and> on_event s k l = (Threw only_supported_in_browser, s)
       \<and> off_event s k l = (Threw only_supported_in_browser, s)
       \<and> is_CapabilityError not_supported_in_node
       \<and> is_CapabilityError only_supported_in_browser
       \<and> signalingClient (ConversationMessagesClient None) = None"
  using assms
  by (simp add: startRealtimeNotifications_def start_begin_def stopRealtimeNotifications_def
      stop_begin_def on_event_def off_event_def is_CapabilityError_def
      ConversationMessagesClient_def)

theorem absent_transport_witness:
  "startRealtimeNotifications (ConversationMessagesClient None) Returned
     = (Threw not_supported_in_node, ConversationMessagesClient None)
   \<and> stopRealtimeNotifications (ConversationMessagesClient None) Returned
     = (Threw not_supported_in_node, ConversationMessagesClient None)
   \<and> on_event (ConversationMessagesClient None) realTimeNotificationConnected 1
     = (Threw only_supported_in_browser, ConversationMessagesClient None)
   \<and> off_event (ConversationMessagesClient None) participantsAdded 1
     = (Threw only_supported_in_browser, ConversationMessagesClient None)"
proof -
  have h: "signalingClient (ConversationMessagesClient None) = None"
    by (simp add: ConversationMessagesClient_def)
  show ?thesis
    using absent_transport [OF h, of Returned realTimeNotificationConnected 1]
      absent_transport [OF h, of Returned participantsAdded 1]
    by simp
qed

subsection \<open>Stopping\<close>

text \<open>
  C5. With a signaling client present and any listeners registered, a call of
  \<^verbatim>\<open>stopRealtimeNotifications\<close> whose awaited \<^verbatim>\<open>stop\<close> resolves returns with the flag false,
  one more call of the transport's \<^verbatim>\<open>stop\<close>, and no listener left under any name: an
  \<^verbatim>\<open>emit\<close> of any name then calls nobody.
\<close>

theorem stop_clears:
  assumes "signalingClient s = Some t"
  shows "stopRealtimeNotifications s Returned =
           (Returned, s\<lparr>isRealtimeNotificationsStarted := False,
                        signalingClient := Some (signaling_stop t),
                        emitter := (\<lambda>k. [])\<rparr>)
       \<and> stopCalls (signaling_stop t) = Suc (stopCalls t)
       \<and> \<not> isRealtimeNotificationsStarted (snd (stopRealtimeNotifications s Returned))
       \<and> emitter (snd (stopRealtimeNotifications s Returned)) k = []
       \<and> emitter_emit beh (emitter (snd (stopRealtimeNotifications s Returned))) k a
           = ([], Returned)"
  using assms by (simp add: stop_present signaling_stop_def emitter_emit_def)

theorem stop_clears_witness:
  "emitter (run (ConversationMessagesClient (Some new_signaling_client))
      [CallOn realTimeNotificationConnected 1, CallStart Returned, CallOn participantsAdded 2])
      participantsAdded = [2]
   \<and> emitter (run (ConversationMessagesClient (Some new_signaling_client))
      [CallOn realTimeNotificationConnected 1, CallStart Returned, CallOn participantsAdded 2])
      realTimeNotificationConnected = [1]
   \<and> emitter (snd (stopRealtimeNotifications
        (run (ConversationMessagesClient (Some new_signaling_client))
          [CallOn realTimeNotificationConnected 1, CallStart Returned, CallOn participantsAdded 2])
        Returned)) participantsAdded = []
   \<and> emitter (snd (stopRealtimeNotifications
        (run (ConversationMessagesClient (Some new_signaling_client))
          [CallOn realTimeNotificationConnected 1, CallStart Returned, CallOn participantsAdded 2])
        Returned)) realTimeNotificationConnected = []"
proof -
  let ?s = "run (ConversationMessagesClient (Some new_signaling_client))
      [CallOn realTimeNotificationConnected 1, CallStart Returned, CallOn participantsAdded 2]"
  let ?t = "new_signaling_client\<lparr>startCalls := Suc 0, handlers := bridge_handlers\<rparr>"
  have s: "?s = \<lparr>signalingClient = Some ?t,
      emitter = (\<lambda>k. [])(realTimeNotificationConnected := [1], participantsAdded := [2]),
      isRealtimeNotificationsStarted = True\<rparr>"
    by (simp add: ConversationMessagesClient_def on_event_def emitter_on_def
        start_idle_resolved new_signaling_client_def)
  have h: "signalingClient ?s = Some ?t" by (simp only: s session.simps)
  show ?thesis
    using stop_clears [OF h, where k = participantsAdded and beh = "\<lambda>l a. Returned" and a = "()"]
      stop_clears [OF h, where k = realTimeNotificationConnected and beh = "\<lambda>l a. Returned"
        and a = "()"]
    unfolding s by simp
qed

subsection \<open>The order of a start\<close>

text \<open>
  C1 as the specification words it puts the assignment of the flag last, after the
  transport has started and the handlers are installed. Line 69 assigns the flag before
  line 70 awaits \<^verbatim>\<open>signalingClient.start()\<close>: on a new client, at the \<^verbatim>\<open>await\<close>, the method
  is suspended, the transport's \<^verbatim>\<open>start\<close> has been called once and has not settled, and the
  flag is already true.
\<close>
theorem flag_set_while_awaiting_start:
  "fst (start_begin (ConversationMessagesClient (Some new_signaling_client))) = Awaiting
   \<and> isRealtimeNotificationsStarted
       (snd (start_begin (ConversationMessagesClient (Some new_signaling_client))))
   \<and> signalingClient (snd (start_begin (ConversationMessagesClient (Some new_signaling_client))))
       = Some (new_signaling_client\<lparr>startCalls := 1\<rparr>)"
  by (simp add: start_begin_def ConversationMessagesClient_def signaling_start_def
      new_signaling_client_def)

text \<open>
  C1, amended. With a signaling client present and the flag false, a start that succeeds
  does this, in this order: it sets the flag, calls the transport's \<^verbatim>\<open>start\<close> and awaits
  it, and once that has resolved it registers the five handlers on the transport.
\<close>

theorem start_order:
  assumes "signalingClient s = Some t" and "\<not> isRealtimeNotificationsStarted s"
  shows "start_begin s =
           (Awaiting, s\<lparr>isRealtimeNotificationsStarted := True,
                        signalingClient := Some (t\<lparr>startCalls := Suc (startCalls t)\<rparr>)\<rparr>)
       \<and> start_resume (snd (start_begin s)) Returned =
           (Returned, s\<lparr>isRealtimeNotificationsStarted := True,
                        signalingClient := Some (t\<lparr>startCalls := Suc (startCalls t),
                                                  handlers := handlers t @ bridge_handlers\<rparr>)\<rparr>)
       \<and> startRealtimeNotifications s Returned = start_resume (snd (start_begin s)) Returned"
  using assms
  by (simp add: start_begin_idle startRealtimeNotifications_def start_resume_def
      subscribe_present signaling_start_def)

theorem start_order_witness:
  "start_begin (ConversationMessagesClient (Some new_signaling_client)) =
     (Awaiting, ConversationMessagesClient (Some new_signaling_client)
                  \<lparr>isRealtimeNotificationsStarted := True,
                   signalingClient := Some (new_signaling_client\<lparr>startCalls := 1\<rparr>)\<rparr>)
   \<and> startRealtimeNotifications (ConversationMessagesClient (Some new_signaling_client)) Returned =
     (Returned, ConversationMessagesClient (Some new_signaling_client)
                  \<lparr>isRealtimeNotificationsStarted := True,
                   signalingClient := Some (new_signaling_client
                     \<lparr>startCalls := 1, handlers := bridge_handlers\<rparr>)\<rparr>)"
proof -
  have h1: "signalingClient (ConversationMessagesClient (Some new_signaling_client))
      = Some new_signaling_client"
    and h2: "\<not> isRealtimeNotificationsStarted (ConversationMessagesClient (Some new_signaling_client))"
    by (simp_all add: ConversationMessagesClient_def)
  have h3: "handlers new_signaling_client = []" and h4: "startCalls new_signaling_client = 0"
    by (simp_all add: new_signaling_client_def)
  show ?thesis using start_order [OF h1 h2] by (auto simp add: h3 h4)
qed

subsection \<open>Starting twice\<close>

text \<open>
  C4. With a signaling client present, after a call of \<^verbatim>\<open>startRealtimeNotifications\<close> a
  second call returns and changes nothing. From a session whose flag is false the two
  calls together call the transport's \<^verbatim>\<open>start\<close> once and, when that resolved, register the
  five handlers once; from a session whose flag is true neither call touches the
  transport.
\<close>
theorem start_twice:
  assumes "signalingClient s = Some t"
  shows "startRealtimeNotifications (snd (startRealtimeNotifications s c1)) c2
           = (Returned, snd (startRealtimeNotifications s c1))
       \<and> signalingClient (snd (startRealtimeNotifications s c1)) =
           Some (if isRealtimeNotificationsStarted s then t
                 else t\<lparr>startCalls := Suc (startCalls t),
                        handlers := handlers t @ (if c1 = Returned then bridge_handlers else [])\<rparr>)
       \<and> isRealtimeNotificationsStarted (snd (startRealtimeNotifications s c1))"
proof (cases "isRealtimeNotificationsStarted s")
  case True
  with assms show ?thesis by (simp add: start_active)
next
  case False
  show ?thesis
  proof (cases c1)
    case Returned
    with assms False show ?thesis
      by (simp add: start_idle_resolved start_active)
  next
    case (Threw e)
    with assms False show ?thesis
      by (simp add: start_idle_rejected start_active)
  qed
qed

theorem start_twice_witness:
  "run (ConversationMessagesClient (Some new_signaling_client)) [CallStart Returned, CallStart Returned]
     = run (ConversationMessagesClient (Some new_signaling_client)) [CallStart Returned]
   \<and> signalingClient (run (ConversationMessagesClient (Some new_signaling_client))
         [CallStart Returned, CallStart Returned])
     = Some (new_signaling_client\<lparr>startCalls := 1, handlers := bridge_handlers\<rparr>)"
proof -
  have h1: "signalingClient (ConversationMessagesClient (Some new_signaling_client))
      = Some new_signaling_client"
    and h2: "\<not> isRealtimeNotificationsStarted (ConversationMessagesClient (Some new_signaling_client))"
    by (simp_all add: ConversationMessagesClient_def)
  have h3: "handlers new_signaling_client = []" and h4: "startCalls new_signaling_client = 0"
    by (simp_all add: new_signaling_client_def)
  show ?thesis
    using start_twice [OF h1, of Returned Returned] by (simp add: h2 h3 h4)
qed

subsection \<open>Connection states\<close>

text \<open>
  C6. After one successful start on a transport without handlers, the transport's event
  \<^verbatim>\<open>connectionChanged\<close> with \<^verbatim>\<open>Connected\<close> makes exactly one call of \<^verbatim>\<open>emit\<close>, of
  \<^verbatim>\<open>realTimeNotificationConnected\<close> without an argument; with \<^verbatim>\<open>Disconnected\<close> exactly one, of
  \<^verbatim>\<open>realTimeNotificationDisconnected\<close>; with any other payload none, and no listener is
  called.
\<close>
theorem connection_translation:
  assumes "signalingClient s = Some t" and "\<not> isRealtimeNotificationsStarted s"
    and "handlers t = []"
  shows "fst (signaling_raise beh (snd (startRealtimeNotifications s Returned)) connectionChanged
              (ConnectionStatePayload Connected))
           = [(realTimeNotificationConnected, None)]
       \<and> fst (signaling_raise beh (snd (startRealtimeNotifications s Returned)) connectionChanged
              (ConnectionStatePayload Disconnected))
           = [(realTimeNotificationDisconnected, None)]
       \<and> (pl \<noteq> ConnectionStatePayload Connected \<and> pl \<noteq> ConnectionStatePayload Disconnected \<longrightarrow>
            signaling_raise beh (snd (startRealtimeNotifications s Returned)) connectionChanged pl
              = ([], [], Returned))"
  using assms
  by (simp add: start_idle_resolved signaling_raise_def handlers_of_bridges run_bridge_def
      split: prod.splits completion.splits)


theorem connection_translation_witness:
  "fst (signaling_raise all_return
          (run (ConversationMessagesClient (Some new_signaling_client)) [CallStart Returned])
          connectionChanged (ConnectionStatePayload Connected :: nat payload))
     = [(realTimeNotificationConnected, None)]
   \<and> fst (signaling_raise all_return
          (run (ConversationMessagesClient (Some new_signaling_client)) [CallStart Returned])
          connectionChanged (ConnectionStatePayload Disconnected :: nat payload))
     = [(realTimeNotificationDisconnected, None)]
   \<and> signaling_raise all_return
          (run (ConversationMessagesClient (Some new_signaling_client)) [CallStart Returned])
          connectionChanged (ConnectionStatePayload (OtherState 1) :: nat payload)
     = ([], [], Returned)"
proof -
  have h1: "signalingClient (ConversationMessagesClient (Some new_signaling_client))
      = Some new_signaling_client"
    and h2: "\<not> isRealtimeNotificationsStarted (ConversationMessagesClient (Some new_signaling_client))"
    by (simp_all add: ConversationMessagesClient_def)
  have h3: "handlers new_signaling_client = []"
    by (simp add: new_signaling_client_def)
  show ?thesis
    using connection_translation [OF h1 h2 h3, where beh = all_return
        and pl = "ConnectionStatePayload (OtherState 1) :: nat payload"]
    by simp
qed

subsection \<open>A start whose transport rejects\<close>

text \<open>
  C10 as it is worded has every later call of \<^verbatim>\<open>startRealtimeNotifications\<close> return as a
  no-op after a start whose transport rejected, and no domain event ever delivered. Line 83
  of \<^verbatim>\<open>stopRealtimeNotifications\<close> sets the flag back to false: on a new client, after the
  failed start and a stop, the next start is not a no-op, it calls the transport's \<^verbatim>\<open>start\<close>
  a second time and registers the five handlers, and a listener then registered for
  \<^verbatim>\<open>chatMessageReceived\<close> receives the transport's event.
\<close>

theorem restart_after_failed_start:
  "signalingClient (run (ConversationMessagesClient (Some new_signaling_client))
      [CallStart (Threw (Error ''connect failed'')), CallStop Returned, CallStart Returned])
     = Some (new_signaling_client
              \<lparr>startCalls := 2, stopCalls := 1, handlers := bridge_handlers\<rparr>)
   \<and> startRealtimeNotifications
        (run (ConversationMessagesClient (Some new_signaling_client))
           [CallStart (Threw (Error ''connect failed'')), CallStop Returned])
        Returned
      \<noteq> (Returned, run (ConversationMessagesClient (Some new_signaling_client))
           [CallStart (Threw (Error ''connect failed'')), CallStop Returned])
   \<and> signaling_raise all_return
        (run (ConversationMessagesClient (Some new_signaling_client))
           [CallStart (Threw (Error ''connect failed'')), CallStop Returned, CallStart Returned,
            CallOn chatMessageReceived 1])
        signaling_chatMessageReceived (EventPayload (0::nat))
     = ([(chatMessageReceived, Some (EventPayload 0))], [(1, Some (EventPayload 0))], Returned)"
proof -
  let ?s0 = "ConversationMessagesClient (Some new_signaling_client)"
  let ?t1 = "new_signaling_client\<lparr>startCalls := Suc 0\<rparr>"
  let ?s1 = "?s0\<lparr>isRealtimeNotificationsStarted := True, signalingClient := Some ?t1\<rparr>"
  let ?t2 = "new_signaling_client\<lparr>startCalls := Suc 0, stopCalls := Suc 0\<rparr>"
  let ?s2 = "\<lparr>signalingClient = Some ?t2, emitter = (\<lambda>k. []),
              isRealtimeNotificationsStarted = False\<rparr>"
  let ?t3 = "new_signaling_client\<lparr>startCalls := 2, stopCalls := Suc 0, handlers := bridge_handlers\<rparr>"
  let ?s3 = "\<lparr>signalingClient = Some ?t3, emitter = (\<lambda>k. []),
              isRealtimeNotificationsStarted = True\<rparr>"
  have a1: "startRealtimeNotifications ?s0 (Threw (Error ''connect failed''))
      = (Threw (Error ''connect failed''), ?s1)"
    by (simp add: start_idle_rejected ConversationMessagesClient_def new_signaling_client_def)
  have a2: "stopRealtimeNotifications ?s1 Returned = (Returned, ?s2)"
    by (simp add: stop_present signaling_stop_def ConversationMessagesClient_def
        new_signaling_client_def)
  have a3: "startRealtimeNotifications ?s2 Returned = (Returned, ?s3)"
    by (simp add: start_idle_resolved new_signaling_client_def)
  have neq: "?s3 \<noteq> ?s2" by simp
  show ?thesis
    using neq
    by (simp add: a1 a2 a3 on_present_active signaling_raise_def handlers_of_def bridge_handlers_def
        run_bridge_def emitter_emit_def all_return_def)
qed

text \<open>
  C10, amended. With a signaling client present and the flag false, when the awaited
  \<^verbatim>\<open>start\<close> rejects with \<open>e\<close>, \<^verbatim>\<open>startRealtimeNotifications\<close> throws \<open>e\<close> and leaves the flag
  true and the handlers of the transport as they were (none is registered). From then on,
  after any sequence of calls that contains no stop: the transport is still as the failed
  start left it, the flag is still true, every call of \<^verbatim>\<open>startRealtimeNotifications\<close>
  returns with the session unchanged (no retry, no handlers), \<^verbatim>\<open>on\<close> returns and appends
  the listener for every name, the domain events included, and, when the transport had no
  handlers before, no event of the transport is emitted or reaches a listener.
\<close>

theorem failed_start:
  assumes "signalingClient s = Some t" and "\<not> isRealtimeNotificationsStarted s"
  shows "startRealtimeNotifications s (Threw e) =
           (Threw e, s\<lparr>isRealtimeNotificationsStarted := True,
                       signalingClient := Some (t\<lparr>startCalls := Suc (startCalls t)\<rparr>)\<rparr>)
       \<and> handlers (t\<lparr>startCalls := Suc (startCalls t)\<rparr>) = handlers t
       \<and> ((\<forall>c\<in>set cs. \<not> is_stop c) \<longrightarrow>
            signalingClient (run (snd (startRealtimeNotifications s (Threw e))) cs)
              = Some (t\<lparr>startCalls := Suc (startCalls t)\<rparr>)
          \<and> isRealtimeNotificationsStarted (run (snd (startRealtimeNotifications s (Threw e))) cs)
          \<and> startRealtimeNotifications (run (snd (startRealtimeNotifications s (Threw e))) cs) settled
              = (Returned, run (snd (startRealtimeNotifications s (Threw e))) cs)
          \<and> fst (on_event (run (snd (startRealtimeNotifications s (Threw e))) cs) k l) = Returned
          \<and> emitter (snd (on_event (run (snd (startRealtimeNotifications s (Threw e))) cs) k l)) k
              = emitter (run (snd (startRealtimeNotifications s (Threw e))) cs) k @ [l]
          \<and> (handlers t = [] \<longrightarrow>
                signaling_raise beh (run (snd (startRealtimeNotifications s (Threw e))) cs) ev pl
                  = ([], [], Returned)))"
proof -
  let ?t = "t\<lparr>startCalls := Suc (startCalls t)\<rparr>"
  let ?s = "s\<lparr>isRealtimeNotificationsStarted := True, signalingClient := Some ?t\<rparr>"
  have first: "startRealtimeNotifications s (Threw e) = (Threw e, ?s)"
    using assms by (simp add: start_idle_rejected)
  have client: "signalingClient ?s = Some ?t" and active: "isRealtimeNotificationsStarted ?s"
    by simp_all
  have later: "signalingClient (run ?s cs) = Some ?t
      \<and> isRealtimeNotificationsStarted (run ?s cs)
      \<and> startRealtimeNotifications (run ?s cs) settled = (Returned, run ?s cs)
      \<and> fst (on_event (run ?s cs) k l) = Returned
      \<and> emitter (snd (on_event (run ?s cs) k l)) k = emitter (run ?s cs) k @ [l]
      \<and> (handlers t = [] \<longrightarrow> signaling_raise beh (run ?s cs) ev pl = ([], [], Returned))"
    if quiet: "\<forall>c\<in>set cs. \<not> is_stop c"
  proof -
    from run_keeps_transport [OF client active quiet]
    have c: "signalingClient (run ?s cs) = Some ?t"
      and a: "isRealtimeNotificationsStarted (run ?s cs)" by simp_all
    have again: "startRealtimeNotifications (run ?s cs) settled = (Returned, run ?s cs)"
      using c a by (rule start_active)
    have sub: "on_event (run ?s cs) k l
        = (Returned, (run ?s cs)\<lparr>emitter := (emitter (run ?s cs))(k := emitter (run ?s cs) k @ [l])\<rparr>)"
      using c a by (rule on_present_active)
    have silent: "signaling_raise beh (run ?s cs) ev pl = ([], [], Returned)" if "handlers t = []"
      using c that by (simp add: signaling_raise_def handlers_of_def)
    show ?thesis using c a again sub silent by simp
  qed
  show ?thesis
    unfolding first snd_conv using later by simp
qed

theorem failed_start_witness:
  "startRealtimeNotifications (ConversationMessagesClient (Some new_signaling_client))
       (Threw (Error ''connect failed''))
     = (Threw (Error ''connect failed''),
        ConversationMessagesClient (Some new_signaling_client)
          \<lparr>isRealtimeNotificationsStarted := True,
           signalingClient := Some (new_signaling_client\<lparr>startCalls := 1\<rparr>)\<rparr>)
   \<and> startRealtimeNotifications
        (run (snd (startRealtimeNotifications (ConversationMessagesClient (Some new_signaling_client))
                (Threw (Error ''connect failed''))))
           [CallStart Returned, CallOn chatMessageReceived 1]) Returned
     = (Returned,
        run (snd (startRealtimeNotifications (ConversationMessagesClient (Some new_signaling_client))
                (Threw (Error ''connect failed''))))
           [CallStart Returned, CallOn chatMessageReceived 1])
   \<and> signaling_raise all_return
        (run (snd (startRealtimeNotifications (ConversationMessagesClient (Some new_signaling_client))
                (Threw (Error ''connect failed''))))
           [CallStart Returned, CallOn chatMessageReceived 1])
        signaling_chatMessageReceived (EventPayload (0::nat))
     = ([], [], Returned)
   \<and> fst (on_event
        (run (snd (startRealtimeNotifications (ConversationMessagesClient (Some new_signaling_client))
                (Threw (Error ''connect failed''))))
           [CallStart Returned, CallOn chatMessageReceived 1])
        chatMessageReceived 2) = Returned"
proof -
  have h1: "signalingClient (ConversationMessagesClient (Some new_signaling_client))
      = Some new_signaling_client"
    and h2: "\<not> isRealtimeNotificationsStarted (ConversationMessagesClient (Some new_signaling_client))"
    by (simp_all add: ConversationMessagesClient_def)
  have h3: "handlers new_signaling_client = []" and h4: "startCalls new_signaling_client = 0"
    by (simp_all add: new_signaling_client_def)
  have h5: "\<forall>c\<in>set [CallStart Returned, CallOn chatMessageReceived 1]. \<not> is_stop c"
    by simp
  from failed_start [OF h1 h2, where e = "Error ''connect failed''" and settled = Returned
      and k = chatMessageReceived and l = 2
      and cs = "[CallStart Returned, CallOn chatMessageReceived 1]"
      and beh = all_return and ev = signaling_chatMessageReceived
      and pl = "EventPayload (0::nat)"]
  show ?thesis using h3 h5 by (auto simp add: h4)
qed

subsection \<open>A listener that throws\<close>

text \<open>
  C2 as the specification words it asks that a listener's exception neither keeps the
  remaining listeners from being called nor reaches the transport. Neither the handlers of
  \<^verbatim>\<open>subscribeToSignalingEvents\<close> nor \<^verbatim>\<open>emit\<close> catch anything: with the listeners 1 and 2
  registered for \<^verbatim>\<open>chatMessageReceived\<close> and listener 1 throwing, the transport's event
  calls listener 1 only, and the exception comes back to the transport.
\<close>
theorem throwing_listener_ends_delivery:
  "signaling_raise (throws_at 1 (Error ''boom''))
     (run (ConversationMessagesClient (Some new_signaling_client))
        [CallStart Returned, CallOn chatMessageReceived 1, CallOn chatMessageReceived 2])
     signaling_chatMessageReceived (EventPayload (0::nat))
   = ([(chatMessageReceived, Some (EventPayload 0))],
      [(1, Some (EventPayload 0))],
      Threw (Error ''boom''))"
  by (simp add: ConversationMessagesClient_def start_idle_resolved on_present_active
      new_signaling_client_def signaling_raise_def handlers_of_def bridge_handlers_def
      run_bridge_def emitter_emit_def throws_at_def)

text \<open>
  C2, amended. When the listeners registered under \<open>k\<close> are \<open>xs\<close>, then \<open>l\<close>, then \<open>ys\<close>,
  the listeners \<open>xs\<close> return and \<open>l\<close> throws \<open>e\<close>, an \<^verbatim>\<open>emit\<close> of \<open>k\<close> calls \<open>xs\<close> and
  \<open>l\<close> in registration order, calls none of \<open>ys\<close>, and throws \<open>e\<close>. Every handler of
  \<^verbatim>\<open>subscribeToSignalingEvents\<close> that publishes \<open>k\<close> makes that one \<^verbatim>\<open>emit\<close> and throws \<open>e\<close>
  to the transport that called it: the handler that forwards a domain event \<open>k\<close>, and the
  handler of \<^verbatim>\<open>connectionChanged\<close> for the two lifecycle signals (\<^verbatim>\<open>Connected\<close> and
  \<^verbatim>\<open>Disconnected\<close>); the transport's run of its handlers ends with \<open>e\<close> there.
\<close>

theorem emit_stops_at_throw:
  assumes "emitter s k = xs @ l # ys"
    and "\<forall>x\<in>set xs. beh x a = Returned"
    and "beh l a = Threw e"
  shows "emitter_emit beh (emitter s) k a = (map (\<lambda>x. (x, a)) (xs @ [l]), Threw e)
       \<and> (a = Some pl \<longrightarrow>
            run_bridge beh s (Forward k) pl
              = ([(k, Some pl)], map (\<lambda>x. (x, Some pl)) (xs @ [l]), Threw e))
       \<and> (k = realTimeNotificationConnected \<and> a = None \<longrightarrow>
            run_bridge beh s ConnectionBridge (ConnectionStatePayload Connected)
              = ([(realTimeNotificationConnected, None)],
                 map (\<lambda>x. (x, None)) (xs @ [l]), Threw e))
       \<and> (k = realTimeNotificationDisconnected \<and> a = None \<longrightarrow>
            run_bridge beh s ConnectionBridge (ConnectionStatePayload Disconnected)
              = ([(realTimeNotificationDisconnected, None)],
                 map (\<lambda>x. (x, None)) (xs @ [l]), Threw e))
       \<and> (bridge_emission h pl' = Some (k, a) \<longrightarrow>
            run_bridge beh s h pl' = ([(k, a)], map (\<lambda>x. (x, a)) (xs @ [l]), Threw e)
          \<and> run_bridges beh s (h # hs) pl' = ([(k, a)], map (\<lambda>x. (x, a)) (xs @ [l]), Threw e)
          \<and> (signalingClient s = Some t \<and> handlers_of t ev = h # hs \<longrightarrow>
               signaling_raise beh s ev pl'
                 = ([(k, a)], map (\<lambda>x. (x, a)) (xs @ [l]), Threw e)))"
proof -
  have emit: "emitter_emit beh (emitter s) k a = (map (\<lambda>x. (x, a)) (xs @ [l]), Threw e)"
    using assms by (simp add: emitter_emit_def call_listeners_first_throw)
  have bridge: "run_bridge beh s h' p = ([(k, a)], map (\<lambda>x. (x, a)) (xs @ [l]), Threw e)"
    if "bridge_emission h' p = Some (k, a)" for h' p
    using that emit by (simp add: run_bridge_def)
  have bridges: "run_bridges beh s (h' # hs') p = ([(k, a)], map (\<lambda>x. (x, a)) (xs @ [l]), Threw e)"
    if "bridge_emission h' p = Some (k, a)" for h' hs' p
    using bridge [OF that] by simp
  have fwd: "run_bridge beh s (Forward k) pl
      = ([(k, Some pl)], map (\<lambda>x. (x, Some pl)) (xs @ [l]), Threw e)" if "a = Some pl"
    using bridge [of "Forward k" pl] that by simp
  have con: "run_bridge beh s ConnectionBridge (ConnectionStatePayload Connected)
      = ([(realTimeNotificationConnected, None)], map (\<lambda>x. (x, None)) (xs @ [l]), Threw e)"
    if "k = realTimeNotificationConnected" and "a = None"
    using bridge [of ConnectionBridge "ConnectionStatePayload Connected"] that by simp
  have dis: "run_bridge beh s ConnectionBridge (ConnectionStatePayload Disconnected)
      = ([(realTimeNotificationDisconnected, None)], map (\<lambda>x. (x, None)) (xs @ [l]), Threw e)"
    if "k = realTimeNotificationDisconnected" and "a = None"
    using bridge [of ConnectionBridge "ConnectionStatePayload Disconnected"] that by simp
  have raise: "signaling_raise beh s ev pl' = ([(k, a)], map (\<lambda>x. (x, a)) (xs @ [l]), Threw e)"
    if "bridge_emission h pl' = Some (k, a)" and "signalingClient s = Some t"
      and "handlers_of t ev = h # hs"
    using bridges [OF that(1), of hs] that(2,3) by (simp add: signaling_raise_def)
  show ?thesis
    using emit fwd con dis bridge [of h pl'] bridges [of h pl' hs] raise by blast
qed

theorem emit_stops_at_throw_witness:
  "run_bridge (throws_at 2 (Error ''boom''))
     (run (ConversationMessagesClient (Some new_signaling_client))
        [CallStart Returned, CallOn participantsRemoved 1, CallOn participantsRemoved 2,
         CallOn participantsRemoved 3])
     (Forward participantsRemoved) (EventPayload (5::nat))
   = ([(participantsRemoved, Some (EventPayload 5))],
      [(1, Some (EventPayload 5)), (2, Some (EventPayload 5))],
      Threw (Error ''boom''))
   \<and> signaling_raise (throws_at 2 (Error ''boom''))
     (run (ConversationMessagesClient (Some new_signaling_client))
        [CallStart Returned, CallOn participantsRemoved 1, CallOn participantsRemoved 2,
         CallOn participantsRemoved 3])
     signaling_participantsRemoved (EventPayload (5::nat))
   = ([(participantsRemoved, Some (EventPayload 5))],
      [(1, Some (EventPayload 5)), (2, Some (EventPayload 5))],
      Threw (Error ''boom''))
   \<and> run_bridge (throws_at 2 (Error ''boom''))
     (run (ConversationMessagesClient (Some new_signaling_client))
        [CallOn realTimeNotificationConnected 1, CallOn realTimeNotificationConnected 2,
         CallOn realTimeNotificationConnected 3, CallStart Returned])
     ConnectionBridge (ConnectionStatePayload Connected :: nat payload)
   = ([(realTimeNotificationConnected, None)], [(1, None), (2, None)], Threw (Error ''boom''))"
proof -
  let ?s = "run (ConversationMessagesClient (Some new_signaling_client))
        [CallStart Returned, CallOn participantsRemoved 1, CallOn participantsRemoved 2,
         CallOn participantsRemoved 3]"
  let ?u = "run (ConversationMessagesClient (Some new_signaling_client))
        [CallOn realTimeNotificationConnected 1, CallOn realTimeNotificationConnected 2,
         CallOn realTimeNotificationConnected 3, CallStart Returned]"
  let ?t = "new_signaling_client\<lparr>startCalls := Suc 0, handlers := bridge_handlers\<rparr>"
  let ?a = "Some (EventPayload (5::nat))"
  let ?n = "None :: nat payload option"
  have h1: "emitter ?s participantsRemoved = [1] @ 2 # [3]"
    by (simp add: ConversationMessagesClient_def start_idle_resolved on_present_active)
  have h2: "\<forall>x\<in>set [1]. throws_at 2 (Error ''boom'') x ?a = Returned"
    by (simp add: throws_at_def)
  have h3: "throws_at 2 (Error ''boom'') 2 ?a = Threw (Error ''boom'')"
    by (simp add: throws_at_def)
  have h4: "signalingClient ?s = Some ?t"
    by (simp add: ConversationMessagesClient_def start_idle_resolved on_present_active
        new_signaling_client_def)
  have h5: "handlers_of ?t signaling_participantsRemoved = Forward participantsRemoved # []"
    by (simp add: handlers_of_def bridge_handlers_def new_signaling_client_def)
  have h6: "bridge_emission (Forward participantsRemoved) (EventPayload (5::nat))
      = Some (participantsRemoved, ?a)"
    by simp
  have g1: "emitter ?u realTimeNotificationConnected = [1] @ 2 # [3]"
    by (simp add: ConversationMessagesClient_def start_idle_resolved on_event_def emitter_on_def)
  have g2: "\<forall>x\<in>set [1]. throws_at 2 (Error ''boom'') x ?n = Returned"
    by (simp add: throws_at_def)
  have g3: "throws_at 2 (Error ''boom'') 2 ?n = Threw (Error ''boom'')"
    by (simp add: throws_at_def)
  from emit_stops_at_throw [where beh = "throws_at 2 (Error ''boom'')" and a = ?a
      and pl = "EventPayload 5" and xs = "[1]" and l = 2 and ys = "[3]"
      and h = "Forward participantsRemoved" and pl' = "EventPayload 5" and hs = "[]"
      and t = ?t and ev = signaling_participantsRemoved, OF h1 h2 h3]
  have p1: "run_bridge (throws_at 2 (Error ''boom'')) ?s (Forward participantsRemoved)
        (EventPayload (5::nat))
      = ([(participantsRemoved, ?a)], map (\<lambda>x. (x, ?a)) ([1] @ [2]), Threw (Error ''boom''))"
    and p2: "signaling_raise (throws_at 2 (Error ''boom'')) ?s signaling_participantsRemoved
        (EventPayload (5::nat))
      = ([(participantsRemoved, ?a)], map (\<lambda>x. (x, ?a)) ([1] @ [2]), Threw (Error ''boom''))"
    using h4 h5 h6 by blast+
  from emit_stops_at_throw [where beh = "throws_at 2 (Error ''boom'')" and a = ?n
      and pl = "EventPayload 5" and xs = "[1]" and l = 2 and ys = "[3]"
      and h = "Forward participantsRemoved" and pl' = "EventPayload 5" and hs = "[]"
      and t = ?t and ev = signaling_participantsRemoved, OF g1 g2 g3]
  have p3: "run_bridge (throws_at 2 (Error ''boom'')) ?u ConnectionBridge
        (ConnectionStatePayload Connected :: nat payload)
      = ([(realTimeNotificationConnected, None)], map (\<lambda>x. (x, ?n)) ([1] @ [2]),
         Threw (Error ''boom''))"
    by blast
  show ?thesis
    unfolding p1 p2 p3 by simp
qed

subsection \<open>Delivery to the registered listeners\<close>

text \<open>
  C7 as the specification words it has every listener registered under \<open>k\<close> called once
  at each publication. With the listeners 3 and 4 registered for \<^verbatim>\<open>participantsAdded\<close> and
  listener 3 throwing, the publication calls listener 3 only: listener 4 is registered and
  is not called.
\<close>
theorem registered_listener_not_invoked:
  "emitter (run (ConversationMessagesClient (Some new_signaling_client))
        [CallStart Returned, CallOn participantsAdded 3, CallOn participantsAdded 4])
      participantsAdded = [3, 4]
   \<and> map fst (fst (snd (signaling_raise (throws_at 3 (Error ''boom''))
        (run (ConversationMessagesClient (Some new_signaling_client))
          [CallStart Returned, CallOn participantsAdded 3, CallOn participantsAdded 4])
        signaling_participantsAdded (EventPayload (0::nat))))) = [3]
   \<and> map fst (fst (snd (signaling_raise (throws_at 3 (Error ''boom''))
        (run (ConversationMessagesClient (Some new_signaling_client))
          [CallStart Returned, CallOn participantsAdded 3, CallOn participantsAdded 4])
        signaling_participantsAdded (EventPayload (0::nat)))))
       \<noteq> emitter (run (ConversationMessagesClient (Some new_signaling_client))
             [CallStart Returned, CallOn participantsAdded 3, CallOn participantsAdded 4])
           participantsAdded"
  by (simp add: ConversationMessagesClient_def start_idle_resolved on_present_active
      new_signaling_client_def signaling_raise_def handlers_of_def bridge_handlers_def
      run_bridge_def emitter_emit_def throws_at_def)

text \<open>
  C7, amended. On a started session with a signaling client, after any sequence of calls
  of \<^verbatim>\<open>on\<close> and \<^verbatim>\<open>off\<close> the listeners under \<open>k\<close> are the registrations the calls leave
  (\<open>registered\<close>: each \<^verbatim>\<open>on\<close> appends, each \<^verbatim>\<open>off\<close> takes the latest instance out). When each
  of them returns, an \<^verbatim>\<open>emit\<close> of \<open>k\<close> calls every registration once, in registration order,
  with the argument of the \<^verbatim>\<open>emit\<close>, and returns; the handler that forwards \<open>k\<close> passes the
  transport's payload to them unchanged.
\<close>

theorem delivery_to_registered:
  assumes "signalingClient s = Some t" and "isRealtimeNotificationsStarted s"
    and "\<forall>c\<in>set cs. is_subscription c"
    and "\<forall>l\<in>set (registered k (emitter s k) cs). beh l a = Returned"
  shows "emitter (run s cs) k = registered k (emitter s k) cs
       \<and> emitter_emit beh (emitter (run s cs)) k a
           = (map (\<lambda>l. (l, a)) (registered k (emitter s k) cs), Returned)
       \<and> (a = Some pl \<longrightarrow>
            run_bridge beh (run s cs) (Forward k) pl
              = ([(k, Some pl)], map (\<lambda>l. (l, Some pl)) (registered k (emitter s k) cs),
                 Returned))"
proof -
  have reg: "emitter (run s cs) k = registered k (emitter s k) cs"
    using assms(1-3) by (rule run_subscriptions)
  have emit: "emitter_emit beh (emitter (run s cs)) k a
      = (map (\<lambda>l. (l, a)) (registered k (emitter s k) cs), Returned)"
    using assms(4) by (simp add: emitter_emit_def reg call_listeners_all_return)
  show ?thesis using reg emit by (auto simp add: run_bridge_def)
qed

theorem delivery_to_registered_witness:
  "run_bridge all_return
     (run (run (ConversationMessagesClient (Some new_signaling_client)) [CallStart Returned])
        [CallOn participantsAdded 1, CallOn participantsAdded 2, CallOn participantsAdded 1,
         CallOff participantsAdded 1, CallOn chatMessageReceived 9])
     (Forward participantsAdded) (EventPayload (7::nat))
   = ([(participantsAdded, Some (EventPayload 7))],
      [(1, Some (EventPayload 7)), (2, Some (EventPayload 7))],
      Returned)"
proof -
  let ?s = "run (ConversationMessagesClient (Some new_signaling_client)) [CallStart Returned]"
  let ?cs = "[CallOn participantsAdded 1, CallOn participantsAdded 2, CallOn participantsAdded 1,
         CallOff participantsAdded 1, CallOn chatMessageReceived 9]"
  have s: "?s = \<lparr>signalingClient = Some (new_signaling_client
        \<lparr>startCalls := Suc 0, handlers := bridge_handlers\<rparr>),
      emitter = (\<lambda>k. []), isRealtimeNotificationsStarted = True\<rparr>"
    by (simp add: ConversationMessagesClient_def start_idle_resolved new_signaling_client_def)
  have h1: "signalingClient ?s = Some (new_signaling_client
        \<lparr>startCalls := Suc 0, handlers := bridge_handlers\<rparr>)"
    and h2: "isRealtimeNotificationsStarted ?s"
    by (simp_all only: s session.simps)
  have h3: "\<forall>c\<in>set ?cs. is_subscription c" by simp
  have h4: "\<forall>l\<in>set (registered participantsAdded (emitter ?s participantsAdded) ?cs).
      all_return l (Some (EventPayload (7::nat))) = Returned"
    by (simp add: all_return_def)
  have r: "registered participantsAdded (emitter ?s participantsAdded) ?cs = [1, 2]"
    unfolding s by (simp add: remove_last_def)
  from delivery_to_registered [where beh = all_return and a = "Some (EventPayload (7::nat))"
      and pl = "EventPayload 7" and k = participantsAdded, OF h1 h2 h3 h4]
  show ?thesis unfolding r by simp
qed

subsection \<open>Unsubscribing\<close>

text \<open>
  C9 as the specification words it has \<^verbatim>\<open>off\<close> remove the first matching registration and
  keep later duplicates. \<^verbatim>\<open>removeListener\<close> removes the most recently added instance: with
  the registrations 1, 2, 1 under \<^verbatim>\<open>participantsAdded\<close>, \<^verbatim>\<open>off\<close> of listener 1 leaves 1, 2,
  not 2, 1.
\<close>
theorem off_removes_latest_duplicate:
  "emitter (run (ConversationMessagesClient (Some new_signaling_client))
        [CallStart Returned, CallOn participantsAdded 1, CallOn participantsAdded 2,
         CallOn participantsAdded 1]) participantsAdded = [1, 2, 1]
   \<and> emitter (run (ConversationMessagesClient (Some new_signaling_client))
        [CallStart Returned, CallOn participantsAdded 1, CallOn participantsAdded 2,
         CallOn participantsAdded 1, CallOff participantsAdded 1]) participantsAdded = [1, 2]
   \<and> emitter (run (ConversationMessagesClient (Some new_signaling_client))
        [CallStart Returned, CallOn participantsAdded 1, CallOn participantsAdded 2,
         CallOn participantsAdded 1, CallOff participantsAdded 1]) participantsAdded
       \<noteq> remove1 1 [1, 2, 1]"
  by (simp add: ConversationMessagesClient_def start_idle_resolved on_present_active
      off_present remove_last_def)

text \<open>
  C9, amended. With a signaling client present, \<^verbatim>\<open>off\<close> returns without an error and
  removes from the listeners of \<open>k\<close> the last registration equal to \<open>l\<close>: the
  registrations before it, earlier duplicates of \<open>l\<close> included, and those after it stay in
  their order; the listeners of every other name stay; and when \<open>l\<close> is not registered
  under \<open>k\<close> the session is unchanged.
\<close>

theorem off_removes_most_recent:
  assumes "signalingClient s = Some t"
  shows "off_event s k l = (Returned, s\<lparr>emitter := (emitter s)(k := remove_last l (emitter s k))\<rparr>)
       \<and> (emitter s k = xs @ l # ys \<and> l \<notin> set ys \<longrightarrow>
            emitter (snd (off_event s k l)) k = xs @ ys)
       \<and> (k' \<noteq> k \<longrightarrow> emitter (snd (off_event s k l)) k' = emitter s k')
       \<and> (l \<notin> set (emitter s k) \<longrightarrow> off_event s k l = (Returned, s))"
  using assms
  by (simp add: off_present remove_last_split remove_last_absent)

theorem off_removes_most_recent_witness:
  "emitter (snd (off_event
      \<lparr>signalingClient = Some new_signaling_client,
       emitter = (\<lambda>k. [])(chatMessageReceived := [4, 5, 4, 6]),
       isRealtimeNotificationsStarted = True\<rparr> chatMessageReceived 4)) chatMessageReceived
     = [4, 5, 6]
   \<and> fst (off_event
      \<lparr>signalingClient = Some new_signaling_client,
       emitter = (\<lambda>k. [])(chatMessageReceived := [4, 5, 4, 6]),
       isRealtimeNotificationsStarted = True\<rparr> chatMessageReceived 8) = Returned
   \<and> snd (off_event
      \<lparr>signalingClient = Some new_signaling_client,
       emitter = (\<lambda>k. [])(chatMessageReceived := [4, 5, 4, 6]),
       isRealtimeNotificationsStarted = True\<rparr> chatMessageReceived 8)
     = \<lparr>signalingClient = Some new_signaling_client,
       emitter = (\<lambda>k. [])(chatMessageReceived := [4, 5, 4, 6]),
       isRealtimeNotificationsStarted = True\<rparr>"
proof -
  let ?s = "\<lparr>signalingClient = Some new_signaling_client,
       emitter = (\<lambda>k. [])(chatMessageReceived := [4, 5, 4, 6]),
       isRealtimeNotificationsStarted = True\<rparr>"
  have h: "signalingClient ?s = Some new_signaling_client" by simp
  from off_removes_most_recent [OF h, where k = chatMessageReceived and l = 4
      and xs = "[4, 5]" and ys = "[6]" and k' = participantsAdded]
    off_removes_most_recent [OF h, where k = chatMessageReceived and l = 8
      and xs = "[]" and ys = "[]" and k' = participantsAdded]
  show ?thesis by auto
qed

end
